theory Spec2Isabelle
  imports Main
begin

section \<open>The relay client of \<^verbatim>\<open>wlnr/relayinterface/client_rpc.go\<close>\<close>

subsection \<open>Data\<close>

text \<open>
  Modelled from the spec: the declaration of \<^verbatim>\<open>GameData\<close> is not part of the file; the
  code builds it as \<^verbatim>\<open>GameData{Name: ..., Password: ...}\<close> and the data model gives it as
  a pair of strings, the game's name and the password of the host position.
\<close>

record GameData =
  Name :: string
  Password :: string

text \<open>
  Modelled from the spec: the interface \<^verbatim>\<open>ClientCallback\<close> and the type
  \<^verbatim>\<open>ServerStatus\<close> are declared elsewhere. The consumer is an external collaborator
  with the methods \<^verbatim>\<open>GameConnected(name)\<close>, \<^verbatim>\<open>GameClosed(name)\<close> and
  \<^verbatim>\<open>Status() *ServerStatus\<close>. The client only holds a reference to it, here a number;
  what the consumer does when called belongs to the environment below. A status snapshot
  is opaque, a type variable \<open>'st\<close>.
\<close>

type_synonym ClientCallback = nat

type_synonym net_Conn = nat

type_synonym net_Listener = nat

text \<open>\<^verbatim>\<open>jsonrpc.NewClient(connection)\<close>: the RPC handle made for one dialled connection.\<close>

datatype rpc_Client = NewClient net_Conn

text \<open>
  The struct \<^verbatim>\<open>ClientRPC\<close>. \<^verbatim>\<open>relay\<close> is a pointer and \<^verbatim>\<open>listener\<close> an interface
  value; both are nil (\<open>None\<close>) in the struct that \<^verbatim>\<open>NewClientRPC\<close> starts from.
\<close>

record ClientRPC =
  callback :: ClientCallback
  relay :: "rpc_Client option"
  listener :: "net_Listener option"

record ClientRPCMethods =
  client :: ClientRPC

text \<open>
  The error of \<^verbatim>\<open>rpc.Client.Call\<close>. The code only compares it with
  \<^verbatim>\<open>rpc.ErrShutdown\<close>; every other error carries its text.
\<close>

datatype rpc_error = ErrShutdown | OtherError string

text \<open>
  What one \<^verbatim>\<open>Call(method, data, &success)\<close> does: with a nil error the reply has been
  decoded into \<^verbatim>\<open>success\<close>; with an error \<^verbatim>\<open>success\<close> keeps its value.
\<close>

datatype call_outcome = Replied bool | Failed rpc_error

subsection \<open>Effects\<close>

text \<open>The lines written with \<^verbatim>\<open>log.Printf\<close> and \<^verbatim>\<open>log.Println\<close>.\<close>

datatype log_line =
    UnableToConnect string
  | ConnectedToRelay
  | ListenError string
  | LostUnableToReconnect
  | LostButReconnected
  | CallError rpc_error

text \<open>
  Everything the client does to the outside is an event; a run is the list of its events,
  oldest first.
\<close>

datatype event =
    DialTimeout string string nat
  | Listen string string
  | Register
  | GoAccept net_Listener
  | Close net_Listener
  | Call rpc_Client string GameData
  | Log log_line
  | CbGameConnected ClientCallback string
  | CbGameClosed ClientCallback string
  | CbStatus ClientCallback

text \<open>
  The outside answers each request as a function of the run so far, the request included.
  Any sequence of dial, listen and call outcomes is such a function. A dial or a listen
  gives an error text (\<open>Inl\<close>) or the connection (\<open>Inr\<close>).
\<close>

record network =
  dial_result :: "event list \<Rightarrow> string + net_Conn"
  listen_result :: "event list \<Rightarrow> string + net_Listener"
  call_result :: "event list \<Rightarrow> call_outcome"

text \<open>
  The consumer, the same way: whether a notification method returns at all (it may panic
  or block), and what \<^verbatim>\<open>Status()\<close> returns: nothing, a nil pointer (\<open>Some None\<close>) or a
  pointer to a snapshot.
\<close>

record 'st consumer =
  cb_returns :: "event list \<Rightarrow> bool"
  cb_status :: "event list \<Rightarrow> 'st option option"

text \<open>
  How a Go function ends: it returns, it panics on a nil dereference, or it never gets to
  its \<^verbatim>\<open>return\<close> because a callee did not come back.
\<close>

datatype 'a outcome = Returns 'a | NilPanic | NoReturn

definition is_Dial :: "event \<Rightarrow> bool" where
  "is_Dial e = (case e of DialTimeout _ _ _ \<Rightarrow> True | _ \<Rightarrow> False)"

definition is_Call :: "event \<Rightarrow> bool" where
  "is_Call e = (case e of Call _ _ _ \<Rightarrow> True | _ \<Rightarrow> False)"

definition dials :: "event list \<Rightarrow> nat" where
  "dials tr = length (filter is_Dial tr)"

definition calls :: "event list \<Rightarrow> nat" where
  "calls tr = length (filter is_Call tr)"

text \<open>The two requests with fixed arguments.\<close>

abbreviation DIAL :: event where
  "DIAL \<equiv> DialTimeout ''tcp'' ''localhost:7398'' 10"

abbreviation LISTEN :: event where
  "LISTEN \<equiv> Listen ''tcp'' '':7399''"

subsection \<open>Connection\<close>

definition connect :: "network \<Rightarrow> ClientRPC \<Rightarrow> event list \<Rightarrow> bool \<times> ClientRPC \<times> event list" where
  "connect net c tr =
     (let tr1 = tr @ [DialTimeout ''tcp'' ''localhost:7398'' 10] in
      case dial_result net tr1 of
        Inl err \<Rightarrow> (False, c, tr1 @ [Log (UnableToConnect err)])
      | Inr connection \<Rightarrow>
          (True, c\<lparr>relay := Some (NewClient connection)\<rparr>, tr1 @ [Log ConnectedToRelay]))"

definition NewClientRPC :: "network \<Rightarrow> ClientCallback \<Rightarrow> event list \<Rightarrow> ClientRPC option \<times> event list" where
  "NewClientRPC net cb tr =
     (let c0 = \<lparr>callback = cb, relay = None, listener = None\<rparr> in
      case connect net c0 tr of
        (False, c1, tr1) \<Rightarrow> (None, tr1)
      | (True, c1, tr1) \<Rightarrow>
          (let tr2 = tr1 @ [Listen ''tcp'' '':7399''] in
           case listen_result net tr2 of
             Inl err \<Rightarrow> (None, tr2 @ [Log (ListenError err)])
           | Inr rpcLn \<Rightarrow>
               (let c2 = c1\<lparr>listener := Some rpcLn\<rparr> in
                (Some c2, tr2 @ [Register, GoAccept rpcLn]))))"

definition CloseConnection :: "ClientRPC \<Rightarrow> event list \<Rightarrow> unit outcome \<times> ClientRPC \<times> event list" where
  "CloseConnection c tr =
     (case listener c of
        None \<Rightarrow> (NilPanic, c, tr)
      | Some l \<Rightarrow> (Returns (), c, tr @ [Close l]))"

subsection \<open>Outbound calls\<close>

text \<open>
  The loop \<^verbatim>\<open>for i := 0; i < 2; i++\<close> of \<^verbatim>\<open>CreateGame\<close> and \<^verbatim>\<open>RemoveGame\<close>, which is
  the same text in both but for the method's name. \<^verbatim>\<open>client.relay\<close> is read anew in each
  round; calling through a nil handle panics. A reply \<open>b\<close> is stored in \<^verbatim>\<open>success\<close>, the
  \<^verbatim>\<open>break\<close> leaves the loop and \<^verbatim>\<open>return success\<close> gives \<open>b\<close>; when the loop runs out,
  \<^verbatim>\<open>success\<close> still has the value it entered with. One invocation runs alone on its client:
  no other goroutine replaces the handle in between.
\<close>

function call_loop ::
  "network \<Rightarrow> string \<Rightarrow> GameData \<Rightarrow> nat \<Rightarrow> bool \<Rightarrow> ClientRPC \<Rightarrow> event list
     \<Rightarrow> bool outcome \<times> ClientRPC \<times> event list" where
  "call_loop net method data i success c tr =
     (if i < 2 then
        (case relay c of
           None \<Rightarrow> (NilPanic, c, tr)
         | Some h \<Rightarrow>
             (let tr1 = tr @ [Call h method data] in
              case call_result net tr1 of
                Replied b \<Rightarrow> (Returns b, c, tr1)
              | Failed err \<Rightarrow>
                  if err = ErrShutdown then
                    (case connect net c tr1 of
                       (False, c1, tr2) \<Rightarrow> (Returns False, c1, tr2 @ [Log LostUnableToReconnect])
                     | (True, c1, tr2) \<Rightarrow>
                         call_loop net method data (i + 1) success c1 (tr2 @ [Log LostButReconnected]))
                  else (Returns False, c, tr1 @ [Log (CallError err)])))
      else (Returns success, c, tr))"
  by pat_completeness auto
termination
  by (relation "measure (\<lambda>(net, method, data, i, success, c, tr). 2 - i)") auto

declare call_loop.simps [simp del]

definition CreateGame ::
  "network \<Rightarrow> string \<Rightarrow> string \<Rightarrow> ClientRPC \<Rightarrow> event list \<Rightarrow> bool outcome \<times> ClientRPC \<times> event list" where
  "CreateGame net name hostPassword c tr =
     (let success = False;
          data = \<lparr>Name = name, Password = hostPassword\<rparr>
      in call_loop net ''ServerRPCMethods.NewGame'' data 0 success c tr)"

definition RemoveGame ::
  "network \<Rightarrow> string \<Rightarrow> ClientRPC \<Rightarrow> event list \<Rightarrow> bool outcome \<times> ClientRPC \<times> event list" where
  "RemoveGame net name c tr =
     (let success = False;
          data = \<lparr>Name = name, Password = ''''\<rparr>
      in call_loop net ''ServerRPCMethods.RemoveGame'' data 0 success c tr)"

subsection \<open>Inbound calls\<close>

text \<open>
  A handler gets the request and the value \<^verbatim>\<open>*response\<close> holds on entry; it gives back
  the value \<^verbatim>\<open>*response\<close> holds at the end and the error (\<open>None\<close> is nil).
\<close>

definition GameConnected ::
  "'st consumer \<Rightarrow> ClientRPCMethods \<Rightarrow> GameData \<Rightarrow> bool \<Rightarrow> event list
     \<Rightarrow> (bool \<times> string option) outcome \<times> event list" where
  "GameConnected cons m inp response tr =
     (let tr1 = tr @ [CbGameConnected (callback (client m)) (Name inp)] in
      if cb_returns cons tr1 then (Returns (response, None), tr1) else (NoReturn, tr1))"

definition GameClosed ::
  "'st consumer \<Rightarrow> ClientRPCMethods \<Rightarrow> GameData \<Rightarrow> bool \<Rightarrow> event list
     \<Rightarrow> (bool \<times> string option) outcome \<times> event list" where
  "GameClosed cons m inp response tr =
     (let tr1 = tr @ [CbGameClosed (callback (client m)) (Name inp)] in
      if cb_returns cons tr1 then (Returns (response, None), tr1) else (NoReturn, tr1))"

definition Status ::
  "'st consumer \<Rightarrow> ClientRPCMethods \<Rightarrow> string \<Rightarrow> 'st \<Rightarrow> event list
     \<Rightarrow> ('st \<times> string option) outcome \<times> event list" where
  "Status cons m inp response tr =
     (let tr1 = tr @ [CbStatus (callback (client m))] in
      case cb_status cons tr1 of
        None \<Rightarrow> (NoReturn, tr1)
      | Some None \<Rightarrow> (NilPanic, tr1)
      | Some (Some st) \<Rightarrow> (Returns (st, None), tr1))"

subsection \<open>Concrete environments\<close>

text \<open>
  A network that answers the k-th dial with the k-th entry of \<open>ds\<close> and the k-th call with
  the k-th entry of \<open>cs\<close>; past the end of a list a dial is refused and a call is answered
  with \<open>False\<close>.
\<close>

definition scripted :: "(string + net_Conn) list \<Rightarrow> call_outcome list \<Rightarrow> network" where
  "scripted ds cs =
     \<lparr>dial_result = (\<lambda>tr. case drop (dials tr - 1) ds of [] \<Rightarrow> Inl ''refused'' | x # _ \<Rightarrow> x),
      listen_result = (\<lambda>tr. Inr 7399),
      call_result = (\<lambda>tr. case drop (calls tr - 1) cs of [] \<Rightarrow> Replied False | x # _ \<Rightarrow> x)\<rparr>"

text \<open>A network on which the port 7399 is taken.\<close>

definition port_in_use :: network where
  "port_in_use =
     \<lparr>dial_result = (\<lambda>tr. Inr 5),
      listen_result = (\<lambda>tr. Inl ''address already in use''),
      call_result = (\<lambda>tr. Replied True)\<rparr>"

text \<open>A client as \<^verbatim>\<open>NewClientRPC\<close> leaves it: connected and listening.\<close>

definition ready_client :: ClientRPC where
  "ready_client = \<lparr>callback = 1, relay = Some (NewClient 4), listener = Some 7399\<rparr>"

text \<open>A consumer whose methods return, with the status 42, and one whose status is nil.\<close>

definition steady_consumer :: "nat consumer" where
  "steady_consumer = \<lparr>cb_returns = (\<lambda>tr. True), cb_status = (\<lambda>tr. Some (Some 42))\<rparr>"

definition nil_consumer :: "nat consumer" where
  "nil_consumer = \<lparr>cb_returns = (\<lambda>tr. True), cb_status = (\<lambda>tr. Some None)\<rparr>"

section \<open>The retry loop, path by path\<close>

lemma call_loop_exit: "\<not> i < 2 \<Longrightarrow> call_loop net m d i s c tr = (Returns s, c, tr)"
  by (simp add: call_loop.simps)

lemma call_loop_nil: "i < 2 \<Longrightarrow> relay c = None \<Longrightarrow> call_loop net m d i s c tr = (NilPanic, c, tr)"
  by (simp add: call_loop.simps)

lemma call_loop_replied:
  "i < 2 \<Longrightarrow> relay c = Some h \<Longrightarrow> call_result net (tr @ [Call h m d]) = Replied b \<Longrightarrow>
   call_loop net m d i s c tr = (Returns b, c, tr @ [Call h m d])"
  by (simp add: call_loop.simps)

lemma call_loop_other:
  "i < 2 \<Longrightarrow> relay c = Some h \<Longrightarrow> call_result net (tr @ [Call h m d]) = Failed e \<Longrightarrow>
   e \<noteq> ErrShutdown \<Longrightarrow>
   call_loop net m d i s c tr = (Returns False, c, tr @ [Call h m d, Log (CallError e)])"
  by (simp add: call_loop.simps)

lemma call_loop_lost:
  "i < 2 \<Longrightarrow> relay c = Some h \<Longrightarrow> call_result net (tr @ [Call h m d]) = Failed ErrShutdown \<Longrightarrow>
   dial_result net (tr @ [Call h m d, DialTimeout ''tcp'' ''localhost:7398'' 10]) = Inl msg \<Longrightarrow>
   call_loop net m d i s c tr =
     (Returns False, c,
      tr @ [Call h m d, DialTimeout ''tcp'' ''localhost:7398'' 10, Log (UnableToConnect msg),
            Log LostUnableToReconnect])"
  by (simp add: call_loop.simps connect_def)

lemma call_loop_again:
  "i < 2 \<Longrightarrow> relay c = Some h \<Longrightarrow> call_result net (tr @ [Call h m d]) = Failed ErrShutdown \<Longrightarrow>
   dial_result net (tr @ [Call h m d, DialTimeout ''tcp'' ''localhost:7398'' 10]) = Inr cn \<Longrightarrow>
   call_loop net m d i s c tr =
     call_loop net m d (i + 1) s (c\<lparr>relay := Some (NewClient cn)\<rparr>)
       (tr @ [Call h m d, DialTimeout ''tcp'' ''localhost:7398'' 10, Log ConnectedToRelay,
              Log LostButReconnected])"
  by (simp add: call_loop.simps connect_def)


lemma call_loop_paths [consumes 1, case_names nil replied other lost
    again_replied again_other again_lost again_again]:
  assumes run: "call_loop net m d 0 False c tr = (r, c', tr')"
  obtains
    "relay c = None" "r = NilPanic" "c' = c" "tr' = tr"
  | h b where "relay c = Some h" "call_result net (tr @ [Call h m d]) = Replied b"
      "r = Returns b" "c' = c" "tr' = tr @ [Call h m d]"
  | h e where "relay c = Some h" "call_result net (tr @ [Call h m d]) = Failed e"
      "e \<noteq> ErrShutdown" "r = Returns False" "c' = c"
      "tr' = tr @ [Call h m d, Log (CallError e)]"
  | h msg where "relay c = Some h" "call_result net (tr @ [Call h m d]) = Failed ErrShutdown"
      "dial_result net (tr @ [Call h m d, DIAL]) = Inl msg"
      "r = Returns False" "c' = c"
      "tr' = tr @ [Call h m d, DIAL, Log (UnableToConnect msg), Log LostUnableToReconnect]"
  | h cn t2 b where "relay c = Some h" "call_result net (tr @ [Call h m d]) = Failed ErrShutdown"
      "dial_result net (tr @ [Call h m d, DIAL]) = Inr cn"
      "t2 = tr @ [Call h m d, DIAL, Log ConnectedToRelay, Log LostButReconnected]"
      "call_result net (t2 @ [Call (NewClient cn) m d]) = Replied b"
      "r = Returns b" "c' = c\<lparr>relay := Some (NewClient cn)\<rparr>"
      "tr' = t2 @ [Call (NewClient cn) m d]"
  | h cn t2 e where "relay c = Some h" "call_result net (tr @ [Call h m d]) = Failed ErrShutdown"
      "dial_result net (tr @ [Call h m d, DIAL]) = Inr cn"
      "t2 = tr @ [Call h m d, DIAL, Log ConnectedToRelay, Log LostButReconnected]"
      "call_result net (t2 @ [Call (NewClient cn) m d]) = Failed e" "e \<noteq> ErrShutdown"
      "r = Returns False" "c' = c\<lparr>relay := Some (NewClient cn)\<rparr>"
      "tr' = t2 @ [Call (NewClient cn) m d, Log (CallError e)]"
  | h cn t2 msg where "relay c = Some h" "call_result net (tr @ [Call h m d]) = Failed ErrShutdown"
      "dial_result net (tr @ [Call h m d, DIAL]) = Inr cn"
      "t2 = tr @ [Call h m d, DIAL, Log ConnectedToRelay, Log LostButReconnected]"
      "call_result net (t2 @ [Call (NewClient cn) m d]) = Failed ErrShutdown"
      "dial_result net (t2 @ [Call (NewClient cn) m d, DIAL]) = Inl msg"
      "r = Returns False" "c' = c\<lparr>relay := Some (NewClient cn)\<rparr>"
      "tr' = t2 @ [Call (NewClient cn) m d, DIAL, Log (UnableToConnect msg),
                   Log LostUnableToReconnect]"
  | h cn t2 cn2 where "relay c = Some h" "call_result net (tr @ [Call h m d]) = Failed ErrShutdown"
      "dial_result net (tr @ [Call h m d, DIAL]) = Inr cn"
      "t2 = tr @ [Call h m d, DIAL, Log ConnectedToRelay, Log LostButReconnected]"
      "call_result net (t2 @ [Call (NewClient cn) m d]) = Failed ErrShutdown"
      "dial_result net (t2 @ [Call (NewClient cn) m d, DIAL]) = Inr cn2"
      "r = Returns False" "c' = c\<lparr>relay := Some (NewClient cn2)\<rparr>"
      "tr' = t2 @ [Call (NewClient cn) m d, DIAL, Log ConnectedToRelay, Log LostButReconnected]"
proof (cases "relay c")
  case None
  with run have "r = NilPanic" "c' = c" "tr' = tr" by (simp_all add: call_loop_nil)
  with None show ?thesis by (rule that(1))
next
  case (Some h)
  note h = this
  show ?thesis
  proof (cases "call_result net (tr @ [Call h m d])")
    case (Replied b)
    with run h have "r = Returns b" "c' = c" "tr' = tr @ [Call h m d]"
      by (simp_all add: call_loop_replied)
    with h Replied show ?thesis by (rule that(2))
  next
    case (Failed e)
    note first = this
    show ?thesis
    proof (cases "e = ErrShutdown")
      case False
      with run h first have "r = Returns False" "c' = c"
        "tr' = tr @ [Call h m d, Log (CallError e)]"
        by (simp_all add: call_loop_other)
      with h first False show ?thesis by (rule that(3))
    next
      case True
      note sh = first [unfolded True]
      show ?thesis
      proof (cases "dial_result net (tr @ [Call h m d, DIAL])")
        case (Inl msg)
        with run h sh have "r = Returns False" "c' = c"
          "tr' = tr @ [Call h m d, DIAL, Log (UnableToConnect msg), Log LostUnableToReconnect]"
          by (simp_all add: call_loop_lost)
        with h sh Inl show ?thesis by (rule that(4))
      next
        case (Inr cn)
        note dial = this
        define t2 where "t2 = tr @ [Call h m d, DIAL, Log ConnectedToRelay, Log LostButReconnected]"
        define c2 where "c2 = c\<lparr>relay := Some (NewClient cn)\<rparr>"
        have h2: "relay c2 = Some (NewClient cn)" by (simp add: c2_def)
        from run h sh dial have run2: "call_loop net m d 1 False c2 t2 = (r, c', tr')"
          by (simp add: call_loop_again t2_def c2_def)
        show ?thesis
        proof (cases "call_result net (t2 @ [Call (NewClient cn) m d])")
          case (Replied b)
          with run2 h2 have "r = Returns b" "c' = c\<lparr>relay := Some (NewClient cn)\<rparr>"
            "tr' = t2 @ [Call (NewClient cn) m d]"
            by (simp_all add: call_loop_replied c2_def)
          with h sh dial t2_def Replied show ?thesis by (rule that(5))
        next
          case (Failed e2)
          note second = this
          show ?thesis
          proof (cases "e2 = ErrShutdown")
            case False
            with run2 h2 second have "r = Returns False" "c' = c\<lparr>relay := Some (NewClient cn)\<rparr>"
              "tr' = t2 @ [Call (NewClient cn) m d, Log (CallError e2)]"
              by (simp_all add: call_loop_other c2_def)
            with h sh dial t2_def second False show ?thesis by (rule that(6))
          next
            case True
            note sh2 = second [unfolded True]
            show ?thesis
            proof (cases "dial_result net (t2 @ [Call (NewClient cn) m d, DIAL])")
              case (Inl msg)
              with run2 h2 sh2 have "r = Returns False" "c' = c\<lparr>relay := Some (NewClient cn)\<rparr>"
                "tr' = t2 @ [Call (NewClient cn) m d, DIAL, Log (UnableToConnect msg),
                             Log LostUnableToReconnect]"
                by (simp_all add: call_loop_lost c2_def)
              with h sh dial t2_def sh2 Inl show ?thesis by (rule that(7))
            next
              case (Inr cn2)
              with run2 h2 sh2 have "r = Returns False" "c' = c\<lparr>relay := Some (NewClient cn2)\<rparr>"
                "tr' = t2 @ [Call (NewClient cn) m d, DIAL, Log ConnectedToRelay,
                             Log LostButReconnected]"
                by (simp_all add: call_loop_again call_loop_exit c2_def)
              with h sh dial t2_def sh2 Inr show ?thesis by (rule that(8))
            qed
          qed
        qed
      qed
    qed
  qed
qed

lemma call_loop_reconnects:
  assumes run: "call_loop net m0 d0 0 False c tr = (r, c', tr')"
  shows "\<exists>evs. tr' = tr @ evs \<and> dials evs \<le> 2 \<and> dials evs \<le> calls evs \<and>
           (\<forall>pre post a b t. evs = pre @ DialTimeout a b t # post \<longrightarrow>
              (\<exists>pre' h m d. pre = pre' @ [Call h m d] \<and>
                 call_result net (tr @ pre) = Failed ErrShutdown))"
  using run
  by (cases rule: call_loop_paths)
     (auto simp: dials_def calls_def is_Dial_def is_Call_def Cons_eq_append_conv)

lemma call_loop_retry:
  assumes run: "call_loop net m d 0 False c tr = (r, c', tr')"
  shows "(\<exists>evs. tr' = tr @ evs \<and> calls evs \<le> 2) \<and>
         (\<forall>h cn.
            relay c = Some h \<and>
            call_result net (tr @ [Call h m d]) = Failed ErrShutdown \<and>
            dial_result net (tr @ [Call h m d, DIAL]) = Inr cn \<longrightarrow>
            (\<exists>rest. tr' = tr @ [Call h m d, DIAL, Log ConnectedToRelay, Log LostButReconnected,
                                  Call (NewClient cn) m d] @ rest \<and>
               calls rest = 0 \<and>
               r = Returns
                 (case call_result net
                         (tr @ [Call h m d, DIAL, Log ConnectedToRelay, Log LostButReconnected,
                                Call (NewClient cn) m d]) of
                    Replied b \<Rightarrow> b
                  | Failed e \<Rightarrow> False)))"
  using run
  by (cases rule: call_loop_paths)
     (auto simp: calls_def is_Call_def)

lemma call_loop_failure:
  assumes run: "call_loop net m0 d0 0 False c tr = (r, c', tr')"
    and split: "tr' = tr @ pre @ Call h m d # post"
    and failed: "call_result net (tr @ pre @ [Call h m d]) = Failed e"
  shows "(e \<noteq> ErrShutdown \<longrightarrow> r = Returns False \<and> post = [Log (CallError e)]) \<and>
         (\<forall>msg. e = ErrShutdown \<and> dial_result net (tr @ pre @ [Call h m d, DIAL]) = Inl msg \<longrightarrow>
            r = Returns False \<and>
            post = [DIAL, Log (UnableToConnect msg), Log LostUnableToReconnect])"
  using run split failed
  by (cases rule: call_loop_paths)
     (auto simp: Cons_eq_append_conv)

lemma call_loop_sends:
  assumes run: "call_loop net m0 d0 0 False c tr = (r, c', tr')"
  shows "(\<forall>h. relay c = Some h \<longrightarrow> (\<exists>post. tr' = tr @ Call h m0 d0 # post)) \<and>
         (\<forall>pre h m d post. tr' = tr @ pre @ Call h m d # post \<longrightarrow>
            m = m0 \<and> d = d0 \<and>
            (\<forall>b. call_result net (tr @ pre @ [Call h m d]) = Replied b \<longrightarrow>
               r = Returns b \<and> post = []))"
  using run
  by (cases rule: call_loop_paths)
     (auto simp: Cons_eq_append_conv)

section \<open>Claims\<close>

subsection \<open>C1: reconnects during one invocation\<close>

text \<open>
  C1, as the code has it. In one invocation of \<^verbatim>\<open>CreateGame\<close> or \<^verbatim>\<open>RemoveGame\<close>, whatever
  the calls and dials answer, the events of the invocation hold at most two dials, never
  more dials than calls, and every dial comes directly after a call that failed with
  \<^verbatim>\<open>rpc.ErrShutdown\<close>: one reconnect for each call attempt that found the transport shut
  down, the second one after the retry.
\<close>

theorem reconnect_after_each_shutdown:
  assumes "CreateGame net name hostPassword c tr = (r, c', tr') \<or>
           RemoveGame net name c tr = (r, c', tr')"
  shows "\<exists>evs. tr' = tr @ evs \<and> dials evs \<le> 2 \<and> dials evs \<le> calls evs \<and>
           (\<forall>pre post a b t. evs = pre @ DialTimeout a b t # post \<longrightarrow>
              (\<exists>pre' h m d. pre = pre' @ [Call h m d] \<and>
                 call_result net (tr @ pre) = Failed ErrShutdown))"
  using assms unfolding CreateGame_def RemoveGame_def Let_def
  by (elim disjE) (rule call_loop_reconnects, assumption)+

text \<open>
  C1 as stated, at most one call to \<^verbatim>\<open>connect\<close> in an invocation, fails when both call
  attempts find the transport shut down and the first reconnect succeeds: the second round
  of the loop reconnects again.
\<close>

theorem single_reconnect_counterexample:
  "\<not> dials (snd (snd (CreateGame (scripted [Inr 5, Inr 6] [Failed ErrShutdown, Failed ErrShutdown])
                         ''room1'' ''pw'' ready_client []))) \<le> 1"
  by (simp add: CreateGame_def call_loop.simps connect_def scripted_def ready_client_def
      dials_def calls_def is_Dial_def is_Call_def Let_def)

theorem reconnect_after_each_shutdown_witness:
  "CreateGame (scripted [Inr 5, Inr 6] [Failed ErrShutdown, Failed ErrShutdown])
       ''room1'' ''pw'' ready_client [] =
     (Returns False, ready_client\<lparr>relay := Some (NewClient 6)\<rparr>,
      [Call (NewClient 4) ''ServerRPCMethods.NewGame'' \<lparr>Name = ''room1'', Password = ''pw''\<rparr>,
       DIAL, Log ConnectedToRelay, Log LostButReconnected,
       Call (NewClient 5) ''ServerRPCMethods.NewGame'' \<lparr>Name = ''room1'', Password = ''pw''\<rparr>,
       DIAL, Log ConnectedToRelay, Log LostButReconnected]) \<and>
   dials [Call (NewClient 4) ''ServerRPCMethods.NewGame'' \<lparr>Name = ''room1'', Password = ''pw''\<rparr>,
       DIAL, Log ConnectedToRelay, Log LostButReconnected,
       Call (NewClient 5) ''ServerRPCMethods.NewGame'' \<lparr>Name = ''room1'', Password = ''pw''\<rparr>,
       DIAL, Log ConnectedToRelay, Log LostButReconnected] \<le> 2 \<and>
   call_result (scripted [Inr 5, Inr 6] [Failed ErrShutdown, Failed ErrShutdown])
     [Call (NewClient 4) ''ServerRPCMethods.NewGame'' \<lparr>Name = ''room1'', Password = ''pw''\<rparr>,
       DIAL, Log ConnectedToRelay, Log LostButReconnected,
       Call (NewClient 5) ''ServerRPCMethods.NewGame'' \<lparr>Name = ''room1'', Password = ''pw''\<rparr>]
     = Failed ErrShutdown"
proof -
  let ?net = "scripted [Inr 5, Inr 6] [Failed ErrShutdown, Failed ErrShutdown]"
  let ?d = "\<lparr>Name = ''room1'', Password = ''pw''\<rparr>"
  let ?pre = "[Call (NewClient 4) ''ServerRPCMethods.NewGame'' ?d,
       DIAL, Log ConnectedToRelay, Log LostButReconnected,
       Call (NewClient 5) ''ServerRPCMethods.NewGame'' ?d]"
  let ?post = "[Log ConnectedToRelay, Log LostButReconnected]"
  have run: "CreateGame ?net ''room1'' ''pw'' ready_client [] =
     (Returns False, ready_client\<lparr>relay := Some (NewClient 6)\<rparr>, ?pre @ DIAL # ?post)"
    by (simp add: CreateGame_def call_loop.simps connect_def scripted_def ready_client_def
        dials_def calls_def is_Dial_def is_Call_def Let_def)
  from reconnect_after_each_shutdown [OF disjI1, OF run]
  obtain evs where evs: "?pre @ DIAL # ?post = [] @ evs" "dials evs \<le> 2"
    and each: "\<forall>pre post a b t. evs = pre @ DialTimeout a b t # post \<longrightarrow>
              (\<exists>pre' h m d. pre = pre' @ [Call h m d] \<and>
                 call_result ?net ([] @ pre) = Failed ErrShutdown)"
    by blast
  from evs have e: "evs = ?pre @ DIAL # ?post" by simp
  with each have "call_result ?net ([] @ ?pre) = Failed ErrShutdown" by blast
  with run evs(2) e show ?thesis by simp
qed

subsection \<open>C2: two call attempts, and the retry decides\<close>

text \<open>
  C2. An invocation of \<^verbatim>\<open>CreateGame\<close> or \<^verbatim>\<open>RemoveGame\<close> makes at most two calls. When the
  client has a handle, the relay answers the first call, the method with the invocation's
  data through that handle, with \<^verbatim>\<open>rpc.ErrShutdown\<close>, and the dial that follows succeeds,
  then the run of the invocation is that call, the reconnect, and one more call, the same
  method and data through the new handle; no call comes after it, and the invocation
  returns what that second call gave: its boolean when it was answered, false when it
  failed. The conditions are on the client and on the answers of the network only.
\<close>

theorem retry_once_and_pass_on:
  "(CreateGame net name hostPassword c tr = (r, c', tr') \<longrightarrow>
      (\<exists>evs. tr' = tr @ evs \<and> calls evs \<le> 2) \<and>
      (\<forall>h cn.
         relay c = Some h \<and>
         call_result net
           (tr @ [Call h ''ServerRPCMethods.NewGame'' \<lparr>Name = name, Password = hostPassword\<rparr>])
           = Failed ErrShutdown \<and>
         dial_result net
           (tr @ [Call h ''ServerRPCMethods.NewGame'' \<lparr>Name = name, Password = hostPassword\<rparr>,
                  DIAL]) = Inr cn \<longrightarrow>
         (\<exists>rest.
            tr' = tr @ [Call h ''ServerRPCMethods.NewGame'' \<lparr>Name = name, Password = hostPassword\<rparr>,
                        DIAL, Log ConnectedToRelay, Log LostButReconnected,
                        Call (NewClient cn) ''ServerRPCMethods.NewGame''
                          \<lparr>Name = name, Password = hostPassword\<rparr>] @ rest \<and>
            calls rest = 0 \<and>
            r = Returns
              (case call_result net
                      (tr @ [Call h ''ServerRPCMethods.NewGame''
                               \<lparr>Name = name, Password = hostPassword\<rparr>,
                             DIAL, Log ConnectedToRelay, Log LostButReconnected,
                             Call (NewClient cn) ''ServerRPCMethods.NewGame''
                               \<lparr>Name = name, Password = hostPassword\<rparr>]) of
                 Replied b \<Rightarrow> b
               | Failed e \<Rightarrow> False)))) \<and>
   (RemoveGame net name c tr = (r, c', tr') \<longrightarrow>
      (\<exists>evs. tr' = tr @ evs \<and> calls evs \<le> 2) \<and>
      (\<forall>h cn.
         relay c = Some h \<and>
         call_result net
           (tr @ [Call h ''ServerRPCMethods.RemoveGame'' \<lparr>Name = name, Password = ''''\<rparr>])
           = Failed ErrShutdown \<and>
         dial_result net
           (tr @ [Call h ''ServerRPCMethods.RemoveGame'' \<lparr>Name = name, Password = ''''\<rparr>,
                  DIAL]) = Inr cn \<longrightarrow>
         (\<exists>rest.
            tr' = tr @ [Call h ''ServerRPCMethods.RemoveGame'' \<lparr>Name = name, Password = ''''\<rparr>,
                        DIAL, Log ConnectedToRelay, Log LostButReconnected,
                        Call (NewClient cn) ''ServerRPCMethods.RemoveGame''
                          \<lparr>Name = name, Password = ''''\<rparr>] @ rest \<and>
            calls rest = 0 \<and>
            r = Returns
              (case call_result net
                      (tr @ [Call h ''ServerRPCMethods.RemoveGame''
                               \<lparr>Name = name, Password = ''''\<rparr>,
                             DIAL, Log ConnectedToRelay, Log LostButReconnected,
                             Call (NewClient cn) ''ServerRPCMethods.RemoveGame''
                               \<lparr>Name = name, Password = ''''\<rparr>]) of
                 Replied b \<Rightarrow> b
               | Failed e \<Rightarrow> False))))"
proof (intro conjI impI)
  assume "CreateGame net name hostPassword c tr = (r, c', tr')"
  then have run: "call_loop net ''ServerRPCMethods.NewGame''
      \<lparr>Name = name, Password = hostPassword\<rparr> 0 False c tr = (r, c', tr')"
    by (simp add: CreateGame_def)
  from call_loop_retry [OF run, THEN conjunct1]
  show "\<exists>evs. tr' = tr @ evs \<and> calls evs \<le> 2" .
  from call_loop_retry [OF run, THEN conjunct2]
  show "\<forall>h cn.
         relay c = Some h \<and>
         call_result net
           (tr @ [Call h ''ServerRPCMethods.NewGame'' \<lparr>Name = name, Password = hostPassword\<rparr>])
           = Failed ErrShutdown \<and>
         dial_result net
           (tr @ [Call h ''ServerRPCMethods.NewGame'' \<lparr>Name = name, Password = hostPassword\<rparr>,
                  DIAL]) = Inr cn \<longrightarrow>
         (\<exists>rest.
            tr' = tr @ [Call h ''ServerRPCMethods.NewGame'' \<lparr>Name = name, Password = hostPassword\<rparr>,
                        DIAL, Log ConnectedToRelay, Log LostButReconnected,
                        Call (NewClient cn) ''ServerRPCMethods.NewGame''
                          \<lparr>Name = name, Password = hostPassword\<rparr>] @ rest \<and>
            calls rest = 0 \<and>
            r = Returns
              (case call_result net
                      (tr @ [Call h ''ServerRPCMethods.NewGame''
                               \<lparr>Name = name, Password = hostPassword\<rparr>,
                             DIAL, Log ConnectedToRelay, Log LostButReconnected,
                             Call (NewClient cn) ''ServerRPCMethods.NewGame''
                               \<lparr>Name = name, Password = hostPassword\<rparr>]) of
                 Replied b \<Rightarrow> b
               | Failed e \<Rightarrow> False))" .
next
  assume "RemoveGame net name c tr = (r, c', tr')"
  then have run: "call_loop net ''ServerRPCMethods.RemoveGame''
      \<lparr>Name = name, Password = ''''\<rparr> 0 False c tr = (r, c', tr')"
    by (simp add: RemoveGame_def)
  from call_loop_retry [OF run, THEN conjunct1]
  show "\<exists>evs. tr' = tr @ evs \<and> calls evs \<le> 2" .
  from call_loop_retry [OF run, THEN conjunct2]
  show "\<forall>h cn.
         relay c = Some h \<and>
         call_result net
           (tr @ [Call h ''ServerRPCMethods.RemoveGame'' \<lparr>Name = name, Password = ''''\<rparr>])
           = Failed ErrShutdown \<and>
         dial_result net
           (tr @ [Call h ''ServerRPCMethods.RemoveGame'' \<lparr>Name = name, Password = ''''\<rparr>,
                  DIAL]) = Inr cn \<longrightarrow>
         (\<exists>rest.
            tr' = tr @ [Call h ''ServerRPCMethods.RemoveGame'' \<lparr>Name = name, Password = ''''\<rparr>,
                        DIAL, Log ConnectedToRelay, Log LostButReconnected,
                        Call (NewClient cn) ''ServerRPCMethods.RemoveGame''
                          \<lparr>Name = name, Password = ''''\<rparr>] @ rest \<and>
            calls rest = 0 \<and>
            r = Returns
              (case call_result net
                      (tr @ [Call h ''ServerRPCMethods.RemoveGame''
                               \<lparr>Name = name, Password = ''''\<rparr>,
                             DIAL, Log ConnectedToRelay, Log LostButReconnected,
                             Call (NewClient cn) ''ServerRPCMethods.RemoveGame''
                               \<lparr>Name = name, Password = ''''\<rparr>]) of
                 Replied b \<Rightarrow> b
               | Failed e \<Rightarrow> False))" .
qed

theorem retry_once_and_pass_on_witness:
  "CreateGame (scripted [Inr 5] [Failed ErrShutdown, Replied True]) ''room1'' ''pw'' ready_client [] =
     (Returns True, ready_client\<lparr>relay := Some (NewClient 5)\<rparr>,
      [Call (NewClient 4) ''ServerRPCMethods.NewGame'' \<lparr>Name = ''room1'', Password = ''pw''\<rparr>,
       DIAL, Log ConnectedToRelay, Log LostButReconnected,
       Call (NewClient 5) ''ServerRPCMethods.NewGame'' \<lparr>Name = ''room1'', Password = ''pw''\<rparr>]) \<and>
   RemoveGame (scripted [Inr 5] [Failed ErrShutdown, Failed (OtherError ''no such game'')])
       ''room1'' ready_client [] =
     (Returns False, ready_client\<lparr>relay := Some (NewClient 5)\<rparr>,
      [Call (NewClient 4) ''ServerRPCMethods.RemoveGame'' \<lparr>Name = ''room1'', Password = ''''\<rparr>,
       DIAL, Log ConnectedToRelay, Log LostButReconnected,
       Call (NewClient 5) ''ServerRPCMethods.RemoveGame'' \<lparr>Name = ''room1'', Password = ''''\<rparr>,
       Log (CallError (OtherError ''no such game''))])"
proof -
  let ?n1 = "scripted [Inr 5] [Failed ErrShutdown, Replied True]"
  let ?n2 = "scripted [Inr 5] [Failed ErrShutdown, Failed (OtherError ''no such game'')]"
  let ?d1 = "\<lparr>Name = ''room1'', Password = ''pw''\<rparr>"
  let ?d2 = "\<lparr>Name = ''room1'', Password = ''''\<rparr>"
  let ?m1 = "''ServerRPCMethods.NewGame''"
  let ?m2 = "''ServerRPCMethods.RemoveGame''"
  let ?k = "ready_client\<lparr>relay := Some (NewClient 5)\<rparr>"
  have handle: "relay ready_client = Some (NewClient 4)"
    by (simp add: ready_client_def)

  obtain r1 k1 t1 where run1: "CreateGame ?n1 ''room1'' ''pw'' ready_client [] = (r1, k1, t1)"
    by (rule prod_cases3)
  then have k1: "k1 = ?k"
    by (auto simp: CreateGame_def call_loop.simps connect_def scripted_def ready_client_def
        dials_def calls_def is_Dial_def is_Call_def Let_def)
  have shut1: "call_result ?n1 ([] @ [Call (NewClient 4) ?m1 ?d1]) = Failed ErrShutdown"
    by (simp add: scripted_def calls_def is_Call_def)
  have dial1: "dial_result ?n1 ([] @ [Call (NewClient 4) ?m1 ?d1, DIAL]) = Inr 5"
    by (simp add: scripted_def dials_def is_Dial_def)
  have again1: "call_result ?n1
      ([] @ [Call (NewClient 4) ?m1 ?d1, DIAL, Log ConnectedToRelay, Log LostButReconnected,
             Call (NewClient 5) ?m1 ?d1]) = Replied True"
    by (simp add: scripted_def calls_def is_Call_def)
  note create = retry_once_and_pass_on
    [of ?n1 "''room1''" "''pw''" ready_client "[]" r1 k1 t1, THEN conjunct1, rule_format, OF run1]
  from create [THEN conjunct1] obtain evs1 where "t1 = [] @ evs1" "calls evs1 \<le> 2" by blast
  from create [THEN conjunct2, rule_format, of "NewClient 4" 5] handle shut1 dial1
  obtain rest1 where rest1:
      "t1 = [] @ [Call (NewClient 4) ?m1 ?d1, DIAL, Log ConnectedToRelay, Log LostButReconnected,
                  Call (NewClient 5) ?m1 ?d1] @ rest1"
      "calls rest1 = 0"
      "r1 = Returns (case call_result ?n1
              ([] @ [Call (NewClient 4) ?m1 ?d1, DIAL, Log ConnectedToRelay, Log LostButReconnected,
                     Call (NewClient 5) ?m1 ?d1]) of Replied b \<Rightarrow> b | Failed e \<Rightarrow> False)"
    by blast
  from rest1(3) again1 have r1: "r1 = Returns True" by simp
  from run1 rest1(1) have "rest1 = []"
    by (auto simp: CreateGame_def call_loop.simps connect_def scripted_def ready_client_def
        dials_def calls_def is_Dial_def is_Call_def Let_def)
  with run1 r1 k1 rest1(1) have first: "CreateGame ?n1 ''room1'' ''pw'' ready_client [] =
     (Returns True, ?k,
      [Call (NewClient 4) ?m1 ?d1, DIAL, Log ConnectedToRelay, Log LostButReconnected,
       Call (NewClient 5) ?m1 ?d1])"
    by simp

  obtain r2 k2 t2 where run2: "RemoveGame ?n2 ''room1'' ready_client [] = (r2, k2, t2)"
    by (rule prod_cases3)
  then have k2: "k2 = ?k"
    by (auto simp: RemoveGame_def call_loop.simps connect_def scripted_def ready_client_def
        dials_def calls_def is_Dial_def is_Call_def Let_def)
  have shut2: "call_result ?n2 ([] @ [Call (NewClient 4) ?m2 ?d2]) = Failed ErrShutdown"
    by (simp add: scripted_def calls_def is_Call_def)
  have dial2: "dial_result ?n2 ([] @ [Call (NewClient 4) ?m2 ?d2, DIAL]) = Inr 5"
    by (simp add: scripted_def dials_def is_Dial_def)
  have again2: "call_result ?n2
      ([] @ [Call (NewClient 4) ?m2 ?d2, DIAL, Log ConnectedToRelay, Log LostButReconnected,
             Call (NewClient 5) ?m2 ?d2]) = Failed (OtherError ''no such game'')"
    by (simp add: scripted_def calls_def is_Call_def)
  note remove = retry_once_and_pass_on
    [of ?n2 "''room1''" "''pw''" ready_client "[]" r2 k2 t2, THEN conjunct2, rule_format, OF run2]
  from remove [THEN conjunct2, rule_format, of "NewClient 4" 5] handle shut2 dial2
  obtain rest2 where rest2:
      "t2 = [] @ [Call (NewClient 4) ?m2 ?d2, DIAL, Log ConnectedToRelay, Log LostButReconnected,
                  Call (NewClient 5) ?m2 ?d2] @ rest2"
      "calls rest2 = 0"
      "r2 = Returns (case call_result ?n2
              ([] @ [Call (NewClient 4) ?m2 ?d2, DIAL, Log ConnectedToRelay, Log LostButReconnected,
                     Call (NewClient 5) ?m2 ?d2]) of Replied b \<Rightarrow> b | Failed e \<Rightarrow> False)"
    by blast
  from rest2(3) again2 have r2: "r2 = Returns False" by simp
  from run2 rest2(1) have "rest2 = [Log (CallError (OtherError ''no such game''))]"
    by (auto simp: RemoveGame_def call_loop.simps connect_def scripted_def ready_client_def
        dials_def calls_def is_Dial_def is_Call_def Let_def)
  with run2 r2 k2 rest2(1) have second: "RemoveGame ?n2 ''room1'' ready_client [] =
     (Returns False, ?k,
      [Call (NewClient 4) ?m2 ?d2, DIAL, Log ConnectedToRelay, Log LostButReconnected,
       Call (NewClient 5) ?m2 ?d2, Log (CallError (OtherError ''no such game''))])"
    by simp
  from first second show ?thesis by simp
qed

subsection \<open>C3: failures that end the invocation\<close>

text \<open>
  C3. Take any call attempt of an invocation, the first or the retry, that failed with the
  error \<open>e\<close>. If \<open>e\<close> is not \<^verbatim>\<open>rpc.ErrShutdown\<close>, the invocation returns false and all
  that follows the call is the log line of the error: no dial, no call. If \<open>e\<close> is
  \<^verbatim>\<open>rpc.ErrShutdown\<close> and the dial of the reconnect fails, the invocation returns false and
  all that follows the call is that one dial and two log lines: no further call.
\<close>

theorem failure_ends_invocation:
  assumes "CreateGame net name hostPassword c tr = (r, c', tr') \<or>
           RemoveGame net name c tr = (r, c', tr')"
    and "tr' = tr @ pre @ Call h m d # post"
    and "call_result net (tr @ pre @ [Call h m d]) = Failed e"
  shows "(e \<noteq> ErrShutdown \<longrightarrow> r = Returns False \<and> post = [Log (CallError e)]) \<and>
         (\<forall>msg. e = ErrShutdown \<and> dial_result net (tr @ pre @ [Call h m d, DIAL]) = Inl msg \<longrightarrow>
            r = Returns False \<and>
            post = [DIAL, Log (UnableToConnect msg), Log LostUnableToReconnect])"
  using assms(1) unfolding CreateGame_def RemoveGame_def Let_def
  by (elim disjE) (rule call_loop_failure [OF _ assms(2,3)], assumption)+

theorem failure_ends_invocation_witness:
  "CreateGame (scripted [] [Failed (OtherError ''no such method'')]) ''room1'' ''pw'' ready_client [] =
     (Returns False, ready_client,
      [Call (NewClient 4) ''ServerRPCMethods.NewGame'' \<lparr>Name = ''room1'', Password = ''pw''\<rparr>,
       Log (CallError (OtherError ''no such method''))]) \<and>
   RemoveGame (scripted [Inr 5, Inl ''refused''] [Failed ErrShutdown, Failed ErrShutdown])
       ''room1'' ready_client [] =
     (Returns False, ready_client\<lparr>relay := Some (NewClient 5)\<rparr>,
      [Call (NewClient 4) ''ServerRPCMethods.RemoveGame'' \<lparr>Name = ''room1'', Password = ''''\<rparr>,
       DIAL, Log ConnectedToRelay, Log LostButReconnected,
       Call (NewClient 5) ''ServerRPCMethods.RemoveGame'' \<lparr>Name = ''room1'', Password = ''''\<rparr>,
       DIAL, Log (UnableToConnect ''refused''), Log LostUnableToReconnect])"
proof -
  let ?n1 = "scripted [] [Failed (OtherError ''no such method'')]"
  let ?n2 = "scripted [Inr 5, Inl ''refused''] [Failed ErrShutdown, Failed ErrShutdown]"
  let ?c1 = "Call (NewClient 4) ''ServerRPCMethods.NewGame'' \<lparr>Name = ''room1'', Password = ''pw''\<rparr>"
  let ?r1 = "Call (NewClient 4) ''ServerRPCMethods.RemoveGame'' \<lparr>Name = ''room1'', Password = ''''\<rparr>"
  let ?r2 = "Call (NewClient 5) ''ServerRPCMethods.RemoveGame'' \<lparr>Name = ''room1'', Password = ''''\<rparr>"
  let ?pre = "[?r1, DIAL, Log ConnectedToRelay, Log LostButReconnected]"
  obtain r1 k1 t1 where run1: "CreateGame ?n1 ''room1'' ''pw'' ready_client [] = (r1, k1, t1)"
    by (rule prod_cases3)
  then have v1: "k1 = ready_client" "\<exists>post. t1 = [] @ [] @ ?c1 # post"
    by (auto simp: CreateGame_def call_loop.simps connect_def scripted_def ready_client_def
        dials_def calls_def is_Dial_def is_Call_def Let_def)
  then obtain post1 where split1: "t1 = [] @ [] @ ?c1 # post1" by blast
  have out1: "call_result ?n1 ([] @ [] @ [?c1]) = Failed (OtherError ''no such method'')"
    by (simp add: scripted_def calls_def is_Call_def)
  from failure_ends_invocation [OF disjI1, OF run1 split1 out1]
  have "r1 = Returns False" "post1 = [Log (CallError (OtherError ''no such method''))]"
    by simp_all
  with run1 v1(1) split1 have first: "CreateGame ?n1 ''room1'' ''pw'' ready_client [] =
     (Returns False, ready_client, [?c1, Log (CallError (OtherError ''no such method''))])"
    by simp
  obtain r2 k2 t2 where run2: "RemoveGame ?n2 ''room1'' ready_client [] = (r2, k2, t2)"
    by (rule prod_cases3)
  then have v2: "k2 = ready_client\<lparr>relay := Some (NewClient 5)\<rparr>"
      "\<exists>post. t2 = [] @ ?pre @ ?r2 # post"
    by (auto simp: RemoveGame_def call_loop.simps connect_def scripted_def ready_client_def
        dials_def calls_def is_Dial_def is_Call_def Let_def)
  then obtain post2 where split2: "t2 = [] @ ?pre @ ?r2 # post2" by blast
  have out2: "call_result ?n2 ([] @ ?pre @ [?r2]) = Failed ErrShutdown"
    by (simp add: scripted_def calls_def is_Call_def)
  have dial2: "dial_result ?n2 ([] @ ?pre @ [?r2, DIAL]) = Inl ''refused''"
    by (simp add: scripted_def dials_def is_Dial_def)
  from failure_ends_invocation [OF disjI2, OF run2 split2 out2] dial2
  have "r2 = Returns False"
    "post2 = [DIAL, Log (UnableToConnect ''refused''), Log LostUnableToReconnect]"
    by simp_all
  with run2 v2(1) split2 have second: "RemoveGame ?n2 ''room1'' ready_client [] =
     (Returns False, ready_client\<lparr>relay := Some (NewClient 5)\<rparr>,
      ?pre @ [?r2, DIAL, Log (UnableToConnect ''refused''), Log LostUnableToReconnect])"
    by simp
  from first second show ?thesis by simp
qed

subsection \<open>C4: what is sent and what comes back\<close>

text \<open>
  C4. Every call that \<^verbatim>\<open>CreateGame name hostPassword\<close> makes is
  \<^verbatim>\<open>ServerRPCMethods.NewGame\<close> with the data \<open>(name, hostPassword)\<close>, every call that
  \<^verbatim>\<open>RemoveGame name\<close> makes is \<^verbatim>\<open>ServerRPCMethods.RemoveGame\<close> with the data
  \<open>(name, '''')\<close>, and a client with a handle does make a call. As soon as the relay answers
  a call with the boolean \<open>b\<close>, the invocation ends and returns \<open>b\<close> itself.
\<close>

theorem request_and_reply_pass_through:
  "(CreateGame net name hostPassword c tr = (r, c', tr') \<longrightarrow>
      (\<forall>h. relay c = Some h \<longrightarrow>
         (\<exists>post. tr' = tr @ Call h ''ServerRPCMethods.NewGame''
                                \<lparr>Name = name, Password = hostPassword\<rparr> # post)) \<and>
      (\<forall>pre h m d post. tr' = tr @ pre @ Call h m d # post \<longrightarrow>
         m = ''ServerRPCMethods.NewGame'' \<and> d = \<lparr>Name = name, Password = hostPassword\<rparr> \<and>
         (\<forall>b. call_result net (tr @ pre @ [Call h m d]) = Replied b \<longrightarrow>
            r = Returns b \<and> post = []))) \<and>
   (RemoveGame net name c tr = (r, c', tr') \<longrightarrow>
      (\<forall>h. relay c = Some h \<longrightarrow>
         (\<exists>post. tr' = tr @ Call h ''ServerRPCMethods.RemoveGame''
                                \<lparr>Name = name, Password = ''''\<rparr> # post)) \<and>
      (\<forall>pre h m d post. tr' = tr @ pre @ Call h m d # post \<longrightarrow>
         m = ''ServerRPCMethods.RemoveGame'' \<and> d = \<lparr>Name = name, Password = ''''\<rparr> \<and>
         (\<forall>b. call_result net (tr @ pre @ [Call h m d]) = Replied b \<longrightarrow>
            r = Returns b \<and> post = [])))"
proof (intro conjI impI)
  assume "CreateGame net name hostPassword c tr = (r, c', tr')"
  then have run: "call_loop net ''ServerRPCMethods.NewGame''
      \<lparr>Name = name, Password = hostPassword\<rparr> 0 False c tr = (r, c', tr')"
    by (simp add: CreateGame_def)
  from call_loop_sends [OF run]
  show "\<forall>h. relay c = Some h \<longrightarrow>
         (\<exists>post. tr' = tr @ Call h ''ServerRPCMethods.NewGame''
                                \<lparr>Name = name, Password = hostPassword\<rparr> # post)"
    and "\<forall>pre h m d post. tr' = tr @ pre @ Call h m d # post \<longrightarrow>
         m = ''ServerRPCMethods.NewGame'' \<and> d = \<lparr>Name = name, Password = hostPassword\<rparr> \<and>
         (\<forall>b. call_result net (tr @ pre @ [Call h m d]) = Replied b \<longrightarrow>
            r = Returns b \<and> post = [])"
    by blast+
next
  assume "RemoveGame net name c tr = (r, c', tr')"
  then have run: "call_loop net ''ServerRPCMethods.RemoveGame''
      \<lparr>Name = name, Password = ''''\<rparr> 0 False c tr = (r, c', tr')"
    by (simp add: RemoveGame_def)
  from call_loop_sends [OF run]
  show "\<forall>h. relay c = Some h \<longrightarrow>
         (\<exists>post. tr' = tr @ Call h ''ServerRPCMethods.RemoveGame''
                                \<lparr>Name = name, Password = ''''\<rparr> # post)"
    and "\<forall>pre h m d post. tr' = tr @ pre @ Call h m d # post \<longrightarrow>
         m = ''ServerRPCMethods.RemoveGame'' \<and> d = \<lparr>Name = name, Password = ''''\<rparr> \<and>
         (\<forall>b. call_result net (tr @ pre @ [Call h m d]) = Replied b \<longrightarrow>
            r = Returns b \<and> post = [])"
    by blast+
qed


theorem request_and_reply_pass_through_witness:
  "CreateGame (scripted [] [Replied True]) ''room1'' ''pw'' ready_client [] =
     (Returns True, ready_client,
      [Call (NewClient 4) ''ServerRPCMethods.NewGame'' \<lparr>Name = ''room1'', Password = ''pw''\<rparr>]) \<and>
   RemoveGame (scripted [] [Replied False]) ''room1'' ready_client [] =
     (Returns False, ready_client,
      [Call (NewClient 4) ''ServerRPCMethods.RemoveGame'' \<lparr>Name = ''room1'', Password = ''''\<rparr>])"
proof -
  let ?n1 = "scripted [] [Replied True]"
  let ?n2 = "scripted [] [Replied False]"
  let ?c1 = "Call (NewClient 4) ''ServerRPCMethods.NewGame'' \<lparr>Name = ''room1'', Password = ''pw''\<rparr>"
  let ?c2 = "Call (NewClient 4) ''ServerRPCMethods.RemoveGame'' \<lparr>Name = ''room1'', Password = ''''\<rparr>"
  have handle: "relay ready_client = Some (NewClient 4)"
    by (simp add: ready_client_def)
  obtain r1 k1 t1 where run1: "CreateGame ?n1 ''room1'' ''pw'' ready_client [] = (r1, k1, t1)"
    by (rule prod_cases3)
  then have k1: "k1 = ready_client"
    by (auto simp: CreateGame_def call_loop.simps connect_def scripted_def ready_client_def
        dials_def calls_def is_Dial_def is_Call_def Let_def)
  note create = request_and_reply_pass_through
    [of ?n1 "''room1''" "''pw''" ready_client "[]" r1 k1 t1, THEN conjunct1, rule_format, OF run1]
  from create [THEN conjunct1, rule_format, OF handle]
  obtain post1 where split1: "t1 = [] @ [] @ ?c1 # post1" by auto
  have out1: "call_result ?n1 ([] @ [] @ [?c1]) = Replied True"
    by (simp add: scripted_def calls_def is_Call_def)
  from create [THEN conjunct2, rule_format, OF split1]
  have "\<forall>b. call_result ?n1 ([] @ [] @ [?c1]) = Replied b \<longrightarrow> r1 = Returns b \<and> post1 = []"
    by blast
  with out1 have "r1 = Returns True" "post1 = []" by blast+
  with run1 k1 split1 have first: "CreateGame ?n1 ''room1'' ''pw'' ready_client [] =
     (Returns True, ready_client, [?c1])"
    by simp
  obtain r2 k2 t2 where run2: "RemoveGame ?n2 ''room1'' ready_client [] = (r2, k2, t2)"
    by (rule prod_cases3)
  then have k2: "k2 = ready_client"
    by (auto simp: RemoveGame_def call_loop.simps connect_def scripted_def ready_client_def
        dials_def calls_def is_Dial_def is_Call_def Let_def)
  note remove = request_and_reply_pass_through
    [of ?n2 "''room1''" "''pw''" ready_client "[]" r2 k2 t2, THEN conjunct2, rule_format, OF run2]
  from remove [THEN conjunct1, rule_format, OF handle]
  obtain post2 where split2: "t2 = [] @ [] @ ?c2 # post2" by auto
  have out2: "call_result ?n2 ([] @ [] @ [?c2]) = Replied False"
    by (simp add: scripted_def calls_def is_Call_def)
  from remove [THEN conjunct2, rule_format, OF split2]
  have "\<forall>b. call_result ?n2 ([] @ [] @ [?c2]) = Replied b \<longrightarrow> r2 = Returns b \<and> post2 = []"
    by blast
  with out2 have "r2 = Returns False" "post2 = []" by blast+
  with run2 k2 split2 have second: "RemoveGame ?n2 ''room1'' ready_client [] =
     (Returns False, ready_client, [?c2])"
    by simp
  from first second show ?thesis by simp
qed


subsection \<open>C5: a failed connect keeps the handle\<close>

text \<open>
  C5. When the dial returns an error, \<^verbatim>\<open>connect\<close> returns false and the client is the one
  it was called on, its \<^verbatim>\<open>relay\<close> handle included; only the dial and the log line are added
  to the run.
\<close>

theorem connect_failure_keeps_handle:
  assumes "dial_result net (tr @ [DIAL]) = Inl err"
  shows "connect net c tr = (False, c, tr @ [DIAL, Log (UnableToConnect err)]) \<and>
         relay (fst (snd (connect net c tr))) = relay c"
  using assms by (simp add: connect_def)

theorem connect_failure_keeps_handle_witness:
  "dial_result (scripted [Inl ''i/o timeout''] []) ([] @ [DIAL]) = Inl ''i/o timeout'' \<and>
   connect (scripted [Inl ''i/o timeout''] []) ready_client [] =
     (False, ready_client, [DIAL, Log (UnableToConnect ''i/o timeout'')]) \<and>
   relay (fst (snd (connect (scripted [Inl ''i/o timeout''] []) ready_client []))) =
     Some (NewClient 4)"
proof -
  have dial: "dial_result (scripted [Inl ''i/o timeout''] []) ([] @ [DIAL]) = Inl ''i/o timeout''"
    by (simp add: scripted_def dials_def is_Dial_def)
  from connect_failure_keeps_handle [OF dial, of ready_client] dial
  show ?thesis by (simp add: ready_client_def)
qed

subsection \<open>C6: CloseConnection touches the listener only\<close>

text \<open>
  C6. \<^verbatim>\<open>CloseConnection\<close> leaves the client as it was, so the relay handle and the callback
  are unchanged and \<^verbatim>\<open>CreateGame\<close> and \<^verbatim>\<open>RemoveGame\<close> do on the client afterwards what
  they do on the client before; with a listener \<open>l\<close> it returns and the one event it adds
  is the close of \<open>l\<close>.
\<close>

theorem close_connection_frame:
  "fst (snd (CloseConnection c tr)) = c \<and>
   relay (fst (snd (CloseConnection c tr))) = relay c \<and>
   callback (fst (snd (CloseConnection c tr))) = callback c \<and>
   (\<forall>l. listener c = Some l \<longrightarrow> CloseConnection c tr = (Returns (), c, tr @ [Close l])) \<and>
   CreateGame net name hostPassword (fst (snd (CloseConnection c tr))) tr2 =
     CreateGame net name hostPassword c tr2 \<and>
   RemoveGame net name (fst (snd (CloseConnection c tr))) tr2 = RemoveGame net name c tr2"
  by (simp add: CloseConnection_def split: option.split)

theorem close_connection_frame_witness:
  "listener ready_client = Some 7399 \<and>
   CloseConnection ready_client [] = (Returns (), ready_client, [Close 7399]) \<and>
   CreateGame (scripted [] [Replied True]) ''room1'' ''pw''
       (fst (snd (CloseConnection ready_client []))) [Close 7399] =
     (Returns True, ready_client,
      [Close 7399,
       Call (NewClient 4) ''ServerRPCMethods.NewGame'' \<lparr>Name = ''room1'', Password = ''pw''\<rparr>])"
proof -
  have l: "listener ready_client = Some 7399" by (simp add: ready_client_def)
  note frame = close_connection_frame
    [of ready_client "[]" "scripted [] [Replied True]" "''room1''" "''pw''" "[Close 7399]"]
  from frame l have closed: "CloseConnection ready_client [] = (Returns (), ready_client, [Close 7399])"
    by simp
  have "CreateGame (scripted [] [Replied True]) ''room1'' ''pw'' ready_client [Close 7399] =
     (Returns True, ready_client,
      [Close 7399,
       Call (NewClient 4) ''ServerRPCMethods.NewGame'' \<lparr>Name = ''room1'', Password = ''pw''\<rparr>])"
    by (simp add: CreateGame_def call_loop.simps scripted_def ready_client_def
        calls_def is_Call_def Let_def)
  with frame l closed show ?thesis by simp
qed

subsection \<open>C7: construction\<close>

text \<open>
  C7. \<^verbatim>\<open>NewClientRPC\<close> returns nil exactly when the dial fails or the listen that follows
  a successful connect fails. When the dial gives the connection \<open>cn\<close> and the listen gives
  \<open>l\<close>, it returns the client with the given callback, the handle made for \<open>cn\<close>, and
  the listener \<open>l\<close>.
\<close>

theorem new_client_rpc_result:
  "(fst (NewClientRPC net cb tr) = None \<longleftrightarrow>
      (\<exists>err. dial_result net (tr @ [DIAL]) = Inl err) \<or>
      (\<exists>err. listen_result net (tr @ [DIAL, Log ConnectedToRelay, LISTEN]) = Inl err)) \<and>
   (\<forall>cn l. dial_result net (tr @ [DIAL]) = Inr cn \<and>
      listen_result net (tr @ [DIAL, Log ConnectedToRelay, LISTEN]) = Inr l \<longrightarrow>
      fst (NewClientRPC net cb tr) =
        Some \<lparr>callback = cb, relay = Some (NewClient cn), listener = Some l\<rparr>)"
  by (cases "dial_result net (tr @ [DIAL])";
      cases "listen_result net (tr @ [DIAL, Log ConnectedToRelay, LISTEN])")
     (simp_all add: NewClientRPC_def connect_def)

theorem new_client_rpc_result_witness:
  "fst (NewClientRPC (scripted [Inr 5] []) 1 []) =
     Some \<lparr>callback = 1, relay = Some (NewClient 5), listener = Some 7399\<rparr> \<and>
   fst (NewClientRPC (scripted [Inl ''connection refused''] []) 1 []) = None \<and>
   fst (NewClientRPC port_in_use 1 []) = None"
proof -
  have d1: "dial_result (scripted [Inr 5] []) ([] @ [DIAL]) = Inr 5"
    and l1: "listen_result (scripted [Inr 5] []) ([] @ [DIAL, Log ConnectedToRelay, LISTEN]) = Inr 7399"
    by (simp_all add: scripted_def dials_def is_Dial_def)
  have d2: "dial_result (scripted [Inl ''connection refused''] []) ([] @ [DIAL]) =
      Inl ''connection refused''"
    by (simp add: scripted_def dials_def is_Dial_def)
  have l3: "listen_result port_in_use ([] @ [DIAL, Log ConnectedToRelay, LISTEN]) =
      Inl ''address already in use''"
    by (simp add: port_in_use_def)
  from new_client_rpc_result [of "scripted [Inr 5] []" 1 "[]"] d1 l1
  have a: "fst (NewClientRPC (scripted [Inr 5] []) 1 []) =
     Some \<lparr>callback = 1, relay = Some (NewClient 5), listener = Some 7399\<rparr>"
    by blast
  from new_client_rpc_result [of "scripted [Inl ''connection refused''] []" 1 "[]"] d2
  have b: "fst (NewClientRPC (scripted [Inl ''connection refused''] []) 1 []) = None"
    by blast
  from new_client_rpc_result [of port_in_use 1 "[]"] l3
  have c: "fst (NewClientRPC port_in_use 1 []) = None"
    by blast
  from a b c show ?thesis by simp
qed

subsection \<open>C8: notifications reach the consumer once, by name\<close>

text \<open>
  C8. The handler \<^verbatim>\<open>GameConnected\<close> adds one event to the run, the consumer's
  \<^verbatim>\<open>GameConnected\<close> called with the \<^verbatim>\<open>Name\<close> of the request, and \<^verbatim>\<open>GameClosed\<close> likewise;
  the \<^verbatim>\<open>Password\<close> of the request changes nothing.
\<close>

theorem notification_forwarded:
  "snd (GameConnected cons m inp response tr) =
     tr @ [CbGameConnected (callback (client m)) (Name inp)] \<and>
   snd (GameClosed cons m inp response tr) =
     tr @ [CbGameClosed (callback (client m)) (Name inp)] \<and>
   GameConnected cons m (inp\<lparr>Password := p\<rparr>) response tr = GameConnected cons m inp response tr \<and>
   GameClosed cons m (inp\<lparr>Password := p\<rparr>) response tr = GameClosed cons m inp response tr"
  by (simp add: GameConnected_def GameClosed_def Let_def)

subsection \<open>C9: the notification handlers report no error\<close>

text \<open>
  C9. Whatever the consumer does, a notification handler ends in one of two ways: it
  returns the nil error with \<^verbatim>\<open>*response\<close> as it was on entry, or it does not return because
  the consumer did not. It returns whenever the consumer does. No outcome carries an error
  or a written response.
\<close>

theorem notification_never_fails:
  "(fst (GameConnected cons m inp response tr) = Returns (response, None) \<or>
    fst (GameConnected cons m inp response tr) = NoReturn) \<and>
   (cb_returns cons (tr @ [CbGameConnected (callback (client m)) (Name inp)]) \<longrightarrow>
      fst (GameConnected cons m inp response tr) = Returns (response, None)) \<and>
   (fst (GameClosed cons m inp response tr) = Returns (response, None) \<or>
    fst (GameClosed cons m inp response tr) = NoReturn) \<and>
   (cb_returns cons (tr @ [CbGameClosed (callback (client m)) (Name inp)]) \<longrightarrow>
      fst (GameClosed cons m inp response tr) = Returns (response, None))"
  by (simp add: GameConnected_def GameClosed_def Let_def)

theorem notification_never_fails_witness:
  "cb_returns steady_consumer ([] @ [CbGameConnected 1 ''room1'']) \<and>
   cb_returns steady_consumer ([] @ [CbGameClosed 1 ''room1'']) \<and>
   fst (GameConnected steady_consumer \<lparr>client = ready_client\<rparr>
          \<lparr>Name = ''room1'', Password = ''pw''\<rparr> False []) = Returns (False, None) \<and>
   fst (GameClosed steady_consumer \<lparr>client = ready_client\<rparr>
          \<lparr>Name = ''room1'', Password = ''pw''\<rparr> False []) = Returns (False, None)"
proof -
  have r: "cb_returns steady_consumer ([] @ [CbGameConnected 1 ''room1''])"
      "cb_returns steady_consumer ([] @ [CbGameClosed 1 ''room1''])"
    by (simp_all add: steady_consumer_def)
  from notification_never_fails
    [of steady_consumer "\<lparr>client = ready_client\<rparr>" "\<lparr>Name = ''room1'', Password = ''pw''\<rparr>"
        False "[]"] r
  show ?thesis by (simp add: ready_client_def)
qed

subsection \<open>C10: Status dereferences what the consumer returns\<close>

text \<open>
  C10. When the consumer's \<^verbatim>\<open>Status()\<close> returns the pointer \<open>p\<close>, the handler panics on
  the dereference exactly when \<open>p\<close> is nil; when \<open>p\<close> points to a snapshot, the handler
  copies the snapshot into the response and returns the nil error.
\<close>

theorem status_needs_a_snapshot:
  assumes "cb_status cons (tr @ [CbStatus (callback (client m))]) = Some p"
  shows "(fst (Status cons m inp response tr) = NilPanic \<longleftrightarrow> p = None) \<and>
         (\<forall>st. p = Some st \<longrightarrow> fst (Status cons m inp response tr) = Returns (st, None))"
  using assms by (cases p) (simp_all add: Status_def)

theorem status_needs_a_snapshot_witness:
  "cb_status steady_consumer ([] @ [CbStatus (callback (client \<lparr>client = ready_client\<rparr>))]) =
     Some (Some 42) \<and>
   fst (Status steady_consumer \<lparr>client = ready_client\<rparr> '''' 0 []) = Returns (42, None) \<and>
   cb_status nil_consumer ([] @ [CbStatus (callback (client \<lparr>client = ready_client\<rparr>))]) =
     Some None \<and>
   fst (Status nil_consumer \<lparr>client = ready_client\<rparr> '''' 0 []) = NilPanic"
proof -
  have s: "cb_status steady_consumer ([] @ [CbStatus (callback (client \<lparr>client = ready_client\<rparr>))]) =
     Some (Some 42)"
    by (simp add: steady_consumer_def)
  have n: "cb_status nil_consumer ([] @ [CbStatus (callback (client \<lparr>client = ready_client\<rparr>))]) =
     Some None"
    by (simp add: nil_consumer_def)
  from status_needs_a_snapshot [OF s, of "''''" 0] status_needs_a_snapshot [OF n, of "''''" 0] s n
  show ?thesis by simp
qed

end
